theory Spec2Isabelle
  imports Main "HOL-Library.Sublist"
begin

section \<open>The MUTE\_ROOM action of plugin-bootstrap\<close>

text \<open>
  A shallow embedding of \<^verbatim>\<open>packages/plugin-bootstrap/src/actions/muteRoom.ts\<close>:
  the \<^verbatim>\<open>validate\<close> predicate, the \<^verbatim>\<open>handler\<close> and its inner function
  \<^verbatim>\<open>_shouldMute\<close>.

  The handler is an \<^verbatim>\<open>async\<close> function that awaits every collaborator call, so one
  invocation is a sequence of calls. It is modelled by explicit state passing over a
  \<open>World\<close> (the participant-state store, the memory store, and the trace of every
  collaborator call in the order it is made); a thrown exception is the result
  \<open>Inl e\<close>, returned together with the world as it is at the moment of the throw.
\<close>

subsection \<open>Strings\<close>

text \<open>
  A JavaScript string is a sequence of UTF-16 code units. The model covers the strings
  whose code units are below 256 (ASCII and Latin-1): a \<open>char\<close> is one such code
  unit. On these, \<^verbatim>\<open>String.prototype.trim\<close> strips the white space and line
  terminators U+0009 to U+000D, U+0020 and U+00A0 from both ends, and
  \<^verbatim>\<open>String.prototype.toLowerCase\<close> maps A to Z, and the Latin-1 capitals U+00C0 to
  U+00DE (without the multiplication sign U+00D7), to the letter 32 code units above.
\<close>

definition isWhiteSpace :: "char \<Rightarrow> bool" where
  "isWhiteSpace c =
     (let n = (of_char c :: nat) in (0x09 \<le> n \<and> n \<le> 0x0D) \<or> n = 0x20 \<or> n = 0xA0)"

definition trim :: "string \<Rightarrow> string" where
  "trim s = rev (dropWhile isWhiteSpace (rev (dropWhile isWhiteSpace s)))"

definition toLowerCaseChar :: "char \<Rightarrow> char" where
  "toLowerCaseChar c =
     (let n = (of_char c :: nat)
      in if (0x41 \<le> n \<and> n \<le> 0x5A) \<or> (0xC0 \<le> n \<and> n \<le> 0xD6) \<or> (0xD8 \<le> n \<and> n \<le> 0xDE)
         then char_of (n + 0x20) else c)"

definition toLowerCase :: "string \<Rightarrow> string" where
  "toLowerCase s = map toLowerCaseChar s"

text \<open>\<^verbatim>\<open>s.includes(pat)\<close>: \<open>pat\<close> occurs in \<open>s\<close> as a contiguous run.\<close>

fun includes_str :: "string \<Rightarrow> string \<Rightarrow> bool" where
  "includes_str [] pat = (pat = [])"
| "includes_str (c # cs) pat = (prefix pat (c # cs) \<or> includes_str cs pat)"

subsection \<open>Data\<close>

type_synonym UUID = string

record Content =
  content_text :: "string option"
  thought :: "string option"
  actions :: "string list option"
  source :: "string option"

text \<open>
  A \<^verbatim>\<open>Memory\<close>. Fields that an object literal of the source leaves out are \<open>None\<close>;
  \<open>metadata_type\<close> is \<^verbatim>\<open>metadata.type\<close>, the only metadata field the action writes.
\<close>

record Memory =
  memory_id :: "UUID option"
  entityId :: UUID
  agentId :: "UUID option"
  roomId :: UUID
  content :: Content
  metadata_type :: "string option"
  createdAt :: "nat option"

record Room =
  room_id :: UUID
  room_name :: string

text \<open>
  The conversation-state snapshot \<^verbatim>\<open>State\<close>: \<open>data_room\<close> is \<^verbatim>\<open>state.data.room\<close>
  (\<open>None\<close> when it is null or undefined); the values and the text are what the prompt
  is composed from.
\<close>

record State =
  state_values :: "(string \<times> string) list"
  data_room :: "Room option"
  state_text :: string

text \<open>
  \<open>Error msg\<close> is \<^verbatim>\<open>new Error(msg)\<close>, and any rejection of a collaborator;
  \<open>TypeError\<close> is what reading a property of null throws.
\<close>

datatype error = Error string | TypeError

datatype ModelType = TEXT_SMALL | TEXT_LARGE

subsection \<open>Collaborators\<close>

text \<open>Every call the action makes on the runtime or the logger, with its arguments.\<close>

datatype event =
    UseModel ModelType string "string list"
  | CreateMemory Memory string
  | SetParticipantUserState UUID UUID string
  | GetParticipantUserState UUID UUID
  | GetRoom UUID
  | LoggerError string
  | LoggerWarn string

record World =
  participantUserState :: "UUID \<times> UUID \<Rightarrow> string option"
  memories :: "(Memory \<times> string) list"
  trace :: "event list"

text \<open>
  The runtime (\<^verbatim>\<open>IAgentRuntime\<close>) is not part of the source file; it is a parameter.
  The completion service \<open>useModel\<close> and the room lookup \<open>getRoom\<close> are functions of
  their arguments that either reject (\<open>Inl\<close>) or resolve; \<open>getRoom\<close> may resolve to
  null (\<open>Inr None\<close>). The participant-state store and the memory store are the two
  stores of the world; their calls always resolve.
\<close>

record Runtime =
  runtime_agentId :: UUID
  useModel :: "ModelType \<Rightarrow> string \<Rightarrow> string list \<Rightarrow> error + string"
  getRoom :: "UUID \<Rightarrow> error + Room option"

text \<open>
  What the file imports from \<^verbatim>\<open>@elizaos/core\<close> and \<^verbatim>\<open>uuid\<close>, and the clock:
  \<open>v4\<close> is the identifier that \<^verbatim>\<open>asUUID(v4())\<close> yields in this invocation and
  \<open>Date_now\<close> the value of \<^verbatim>\<open>Date.now()\<close>.
\<close>

record Core =
  composePromptFromState :: "State \<Rightarrow> string \<Rightarrow> string"
  booleanFooter :: string
  v4 :: UUID
  Date_now :: nat

definition call :: "event \<Rightarrow> World \<Rightarrow> World" where
  "call ev w = w\<lparr>trace := trace w @ [ev]\<rparr>"

definition createMemory :: "Memory \<Rightarrow> string \<Rightarrow> World \<Rightarrow> World" where
  "createMemory m tableName w =
     call (CreateMemory m tableName) (w\<lparr>memories := memories w @ [(m, tableName)]\<rparr>)"

definition setParticipantUserState :: "UUID \<Rightarrow> UUID \<Rightarrow> string \<Rightarrow> World \<Rightarrow> World" where
  "setParticipantUserState rid eid st w =
     call (SetParticipantUserState rid eid st)
       (w\<lparr>participantUserState := (participantUserState w)((rid, eid) := Some st)\<rparr>)"

definition getParticipantUserState :: "UUID \<Rightarrow> UUID \<Rightarrow> World \<Rightarrow> string option \<times> World" where
  "getParticipantUserState rid eid w =
     (participantUserState w (rid, eid), call (GetParticipantUserState rid eid) w)"

subsection \<open>The template\<close>

definition shouldMuteTemplate :: "string \<Rightarrow> string" where
  "shouldMuteTemplate footer =
     ''# Task: Decide if {{agentName}} should mute this room and stop responding unless explicitly mentioned.\<newline>'' @
     ''\<newline>'' @
     ''{{recentMessages}}\<newline>'' @
     ''\<newline>'' @
     ''Should {{agentName}} mute this room and stop responding unless explicitly mentioned?\<newline>'' @
     ''\<newline>'' @
     ''Respond with YES if:\<newline>'' @
     ''- The user is being aggressive, rude, or inappropriate\<newline>'' @
     ''- The user has directly asked {{agentName}} to stop responding or be quiet\<newline>'' @
     ''- {{agentName}}'' @ [CHR 0x27] @ ''s responses are not well-received or are annoying the user(s)\<newline>'' @
     ''\<newline>'' @
     ''Otherwise, respond with NO.\<newline>'' @
     footer"

subsection \<open>The records the action writes\<close>

text \<open>The object literal of lines 100 to 112.\<close>

definition muteRoomStartedMemory :: "Memory \<Rightarrow> Memory" where
  "muteRoomStartedMemory message =
     \<lparr>memory_id = None,
      entityId = entityId message,
      agentId = agentId message,
      roomId = roomId message,
      content = \<lparr>content_text = None,
                 thought = Some ''I will now mute this room'',
                 actions = Some [''MUTE_ROOM_STARTED''],
                 source = source (content message)\<rparr>,
      metadata_type = Some ''MUTE_ROOM'',
      createdAt = None\<rparr>"

text \<open>The object literal of lines 127 to 139.\<close>

definition muteRoomFailedMemory :: "Memory \<Rightarrow> Memory" where
  "muteRoomFailedMemory message =
     \<lparr>memory_id = None,
      entityId = entityId message,
      agentId = agentId message,
      roomId = roomId message,
      content = \<lparr>content_text = None,
                 thought = Some ''I decided to not mute this room'',
                 actions = Some [''MUTE_ROOM_FAILED''],
                 source = source (content message)\<rparr>,
      metadata_type = Some ''MUTE_ROOM'',
      createdAt = None\<rparr>"

text \<open>The object literal of lines 156 to 164.\<close>

definition muteRoomStartMemory :: "Memory \<Rightarrow> Room \<Rightarrow> Memory" where
  "muteRoomStartMemory message room =
     \<lparr>memory_id = None,
      entityId = entityId message,
      agentId = agentId message,
      roomId = roomId message,
      content = \<lparr>content_text = None,
                 thought = Some (''I muted the room '' @ room_name room),
                 actions = Some [''MUTE_ROOM_START''],
                 source = None\<rparr>,
      metadata_type = None,
      createdAt = None\<rparr>"

text \<open>\<^verbatim>\<open>muteMessage\<close>, lines 169 to 181.\<close>

definition muteMessage :: "Core \<Rightarrow> Runtime \<Rightarrow> Memory \<Rightarrow> Room \<Rightarrow> Memory" where
  "muteMessage core runtime message room =
     \<lparr>memory_id = Some (v4 core),
      entityId = runtime_agentId runtime,
      agentId = Some (runtime_agentId runtime),
      roomId = roomId message,
      content = \<lparr>content_text = Some [],
                 thought = Some (''I muted the room '' @ room_name room),
                 actions = Some [''MUTE_ROOM''],
                 source = source (content message)\<rparr>,
      metadata_type = None,
      createdAt = Some (Date_now core)\<rparr>"

subsection \<open>validate\<close>

definition validate :: "Runtime \<Rightarrow> Memory \<Rightarrow> World \<Rightarrow> bool \<times> World" where
  "validate runtime message w =
     (case getParticipantUserState (roomId message) (runtime_agentId runtime) w of
        (roomState, w1) \<Rightarrow> (roomState \<noteq> Some ''MUTED'', w1))"

subsection \<open>The classifier \<^verbatim>\<open>_shouldMute\<close>\<close>

text \<open>The condition of the first \<^verbatim>\<open>if\<close> (lines 92 to 98) and of the second (lines 119 to 125).\<close>

definition affirmativeResponse :: "string \<Rightarrow> bool" where
  "affirmativeResponse cleanedResponse =
     (cleanedResponse = ''true'' \<or>
      cleanedResponse = ''yes'' \<or>
      cleanedResponse = ''y'' \<or>
      includes_str cleanedResponse ''true'' \<or>
      includes_str cleanedResponse ''yes'')"

definition negativeResponse :: "string \<Rightarrow> bool" where
  "negativeResponse cleanedResponse =
     (cleanedResponse = ''false'' \<or>
      cleanedResponse = ''no'' \<or>
      cleanedResponse = ''n'' \<or>
      includes_str cleanedResponse ''false'' \<or>
      includes_str cleanedResponse ''no'')"

definition shouldMutePrompt :: "Core \<Rightarrow> State \<Rightarrow> string" where
  "shouldMutePrompt core state =
     composePromptFromState core state (shouldMuteTemplate (booleanFooter core))"

definition unclearWarning :: "string \<Rightarrow> string" where
  "unclearWarning response =
     ''Unclear boolean response: '' @ response @ '', defaulting to false''"

definition shouldMute ::
  "Core \<Rightarrow> Runtime \<Rightarrow> Memory \<Rightarrow> State \<Rightarrow> World \<Rightarrow> (error + bool) \<times> World" where
  "shouldMute core runtime message state w =
     (let w1 = call (UseModel TEXT_SMALL (shouldMutePrompt core state) []) w
      in case useModel runtime TEXT_SMALL (shouldMutePrompt core state) [] of
           Inl e \<Rightarrow> (Inl e, w1)
         | Inr response \<Rightarrow>
             (let cleanedResponse = toLowerCase (trim response)
              in if affirmativeResponse cleanedResponse
                 then (Inr True, createMemory (muteRoomStartedMemory message) ''messages'' w1)
                 else
                   (let w2 = (if negativeResponse cleanedResponse
                              then createMemory (muteRoomFailedMemory message) ''messages'' w1
                              else w1)
                    in (Inr False, call (LoggerWarn (unclearWarning response)) w2))))"

subsection \<open>handler\<close>

text \<open>
  Lines 155 to 183, once \<open>room\<close> is an object: the closing audit memory, then the
  message of the agent itself.
\<close>

definition appendClosing ::
  "Core \<Rightarrow> Runtime \<Rightarrow> Memory \<Rightarrow> Room \<Rightarrow> World \<Rightarrow> (error + unit) \<times> World" where
  "appendClosing core runtime message room w =
     (Inr (),
      createMemory (muteMessage core runtime message room) ''messages''
        (createMemory (muteRoomStartMemory message room) ''messages'' w))"

text \<open>
  Lines 153 to 183. \<^verbatim>\<open>state.data.room ?? (await runtime.getRoom(message.roomId))\<close>
  calls \<open>getRoom\<close> only when the snapshot carries no room; a rejection of \<open>getRoom\<close>
  propagates, and a null result makes \<^verbatim>\<open>room.name\<close> throw while the argument of the
  first \<open>createMemory\<close> is built, before the call.
\<close>

definition closingRecords ::
  "Core \<Rightarrow> Runtime \<Rightarrow> Memory \<Rightarrow> State \<Rightarrow> World \<Rightarrow> (error + unit) \<times> World" where
  "closingRecords core runtime message state w =
     (case data_room state of
        Some room \<Rightarrow> appendClosing core runtime message room w
      | None \<Rightarrow>
          (let w1 = call (GetRoom (roomId message)) w
           in case getRoom runtime (roomId message) of
                Inl e \<Rightarrow> (Inl e, w1)
              | Inr None \<Rightarrow> (Inl TypeError, w1)
              | Inr (Some room) \<Rightarrow> appendClosing core runtime message room w1))"

definition stateRequired :: string where
  "stateRequired = ''State is required for muting a room''"

definition handler ::
  "Core \<Rightarrow> Runtime \<Rightarrow> Memory \<Rightarrow> State option \<Rightarrow> World \<Rightarrow> (error + unit) \<times> World" where
  "handler core runtime message state w =
     (case state of
        None \<Rightarrow> (Inl (Error stateRequired), call (LoggerError stateRequired) w)
      | Some st \<Rightarrow>
          (case shouldMute core runtime message st w of
             (Inl e, w1) \<Rightarrow> (Inl e, w1)
           | (Inr muting, w1) \<Rightarrow>
               closingRecords core runtime message st
                 (if muting
                  then setParticipantUserState (roomId message) (runtime_agentId runtime) ''MUTED'' w1
                  else w1)))"

subsection \<open>The workflow\<close>

text \<open>
  Modelled from the spec: the dispatcher that evaluates the eligibility guard and runs
  the handler is not in the source file. The spec (sections 2 and 4.1) has the guard
  first, each stage gated on the previous one: when \<open>validate\<close> returns false the
  workflow performs no further action.
\<close>

definition workflow ::
  "Core \<Rightarrow> Runtime \<Rightarrow> Memory \<Rightarrow> State option \<Rightarrow> World \<Rightarrow> (error + unit) \<times> World" where
  "workflow core runtime message state w =
     (case validate runtime message w of
        (eligible, w1) \<Rightarrow>
          if eligible then handler core runtime message state w1 else (Inr (), w1))"

subsection \<open>Observations\<close>

text \<open>What an invocation that takes the world \<open>w\<close> to \<open>w'\<close> appended and called.\<close>

definition appended :: "World \<Rightarrow> World \<Rightarrow> (Memory \<times> string) list" where
  "appended w w' = drop (length (memories w)) (memories w')"

definition newCalls :: "World \<Rightarrow> World \<Rightarrow> event list" where
  "newCalls w w' = drop (length (trace w)) (trace w')"

definition hasAction :: "string \<Rightarrow> Memory \<times> string \<Rightarrow> bool" where
  "hasAction tag e =
     (case actions (content (fst e)) of None \<Rightarrow> False | Some tags \<Rightarrow> tag \<in> set tags)"

fun isUseModel :: "event \<Rightarrow> bool" where
  "isUseModel (UseModel t p s) = True"
| "isUseModel ev = False"

fun isCreateMemory :: "event \<Rightarrow> bool" where
  "isCreateMemory (CreateMemory m t) = True"
| "isCreateMemory ev = False"

fun isSetParticipantUserState :: "event \<Rightarrow> bool" where
  "isSetParticipantUserState (SetParticipantUserState r a s) = True"
| "isSetParticipantUserState ev = False"

fun isGetRoom :: "event \<Rightarrow> bool" where
  "isGetRoom (GetRoom r) = True"
| "isGetRoom ev = False"

subsection \<open>A concrete room, agent and message\<close>

definition generalRoom :: Room where
  "generalRoom = \<lparr>room_id = ''room-1'', room_name = ''general''\<rparr>"

definition replyingRuntime :: "(error + string) \<Rightarrow> (error + Room option) \<Rightarrow> Runtime" where
  "replyingRuntime reply found =
     \<lparr>runtime_agentId = ''agent-1'',
      useModel = (\<lambda>t p s. reply),
      getRoom = (\<lambda>r. found)\<rparr>"

definition someCore :: Core where
  "someCore =
     \<lparr>composePromptFromState = (\<lambda>st template. state_text st @ template),
      booleanFooter = ''Respond with only a YES or a NO.'',
      v4 = ''uuid-1'',
      Date_now = 1700000000000\<rparr>"

definition userMessage :: Memory where
  "userMessage =
     \<lparr>memory_id = Some ''msg-1'',
      entityId = ''user-1'',
      agentId = Some ''agent-1'',
      roomId = ''room-1'',
      content = \<lparr>content_text = Some ''please be quiet'',
                 thought = None,
                 actions = None,
                 source = Some ''discord''\<rparr>,
      metadata_type = None,
      createdAt = Some 1699999999000\<rparr>"

definition stateWithRoom :: State where
  "stateWithRoom = \<lparr>state_values = [], data_room = Some generalRoom, state_text = []\<rparr>"

definition stateWithoutRoom :: State where
  "stateWithoutRoom = \<lparr>state_values = [], data_room = None, state_text = []\<rparr>"

definition emptyWorld :: World where
  "emptyWorld = \<lparr>participantUserState = (\<lambda>k. None), memories = [], trace = []\<rparr>"

definition mutedWorld :: World where
  "mutedWorld =
     \<lparr>participantUserState = (\<lambda>k. if k = (''room-1'', ''agent-1'') then Some ''MUTED'' else None),
      memories = [],
      trace = []\<rparr>"

section \<open>Properties\<close>

subsection \<open>Strings\<close>

lemma includes_str_iff: "includes_str s pat \<longleftrightarrow> (\<exists>ps ss. s = ps @ pat @ ss)"
proof (induction s)
  case Nil
  then show ?case by auto
next
  case (Cons c cs)
  show ?case
  proof
    assume "includes_str (c # cs) pat"
    then consider "prefix pat (c # cs)" | "includes_str cs pat" by auto
    then show "\<exists>ps ss. c # cs = ps @ pat @ ss"
    proof cases
      case 1
      then obtain ss where "c # cs = pat @ ss" by (auto simp: prefix_def)
      then have "c # cs = [] @ pat @ ss" by simp
      then show ?thesis by blast
    next
      case 2
      with Cons.IH obtain ps ss where "cs = ps @ pat @ ss" by blast
      then have "c # cs = (c # ps) @ pat @ ss" by simp
      then show ?thesis by blast
    qed
  next
    assume "\<exists>ps ss. c # cs = ps @ pat @ ss"
    then obtain ps ss where eq: "c # cs = ps @ pat @ ss" by blast
    show "includes_str (c # cs) pat"
    proof (cases ps)
      case Nil
      with eq have "prefix pat (c # cs)" by (simp add: prefix_def)
      then show ?thesis by simp
    next
      case (Cons p ps')
      with eq have "cs = ps' @ pat @ ss" by simp
      with Cons.IH have "includes_str cs pat" by blast
      then show ?thesis by simp
    qed
  qed
qed

subsection \<open>The stores and the stages\<close>

lemma call_sel [simp]:
  "participantUserState (call ev w) = participantUserState w"
  "memories (call ev w) = memories w"
  "trace (call ev w) = trace w @ [ev]"
  by (simp_all add: call_def)

lemma createMemory_sel [simp]:
  "participantUserState (createMemory m t w) = participantUserState w"
  "memories (createMemory m t w) = memories w @ [(m, t)]"
  "trace (createMemory m t w) = trace w @ [CreateMemory m t]"
  by (simp_all add: createMemory_def)

lemma setParticipantUserState_sel [simp]:
  "participantUserState (setParticipantUserState r a s w) = (participantUserState w)((r, a) := Some s)"
  "memories (setParticipantUserState r a s w) = memories w"
  "trace (setParticipantUserState r a s w) = trace w @ [SetParticipantUserState r a s]"
  by (simp_all add: setParticipantUserState_def)

lemma hasAction_records [simp]:
  "hasAction tag (muteRoomStartedMemory message, t) \<longleftrightarrow> tag = ''MUTE_ROOM_STARTED''"
  "hasAction tag (muteRoomFailedMemory message, t) \<longleftrightarrow> tag = ''MUTE_ROOM_FAILED''"
  "hasAction tag (muteRoomStartMemory message room, t) \<longleftrightarrow> tag = ''MUTE_ROOM_START''"
  "hasAction tag (muteMessage core runtime message room, t) \<longleftrightarrow> tag = ''MUTE_ROOM''"
  by (auto simp: hasAction_def muteRoomStartedMemory_def muteRoomFailedMemory_def
      muteRoomStartMemory_def muteMessage_def)

lemma shouldMute_reject:
  "useModel runtime TEXT_SMALL (shouldMutePrompt core state) [] = Inl e \<Longrightarrow>
   shouldMute core runtime message state w =
     (Inl e, call (UseModel TEXT_SMALL (shouldMutePrompt core state) []) w)"
  by (simp add: shouldMute_def)

lemma shouldMute_affirmative:
  "useModel runtime TEXT_SMALL (shouldMutePrompt core state) [] = Inr response \<Longrightarrow>
   affirmativeResponse (toLowerCase (trim response)) \<Longrightarrow>
   shouldMute core runtime message state w =
     (Inr True,
      createMemory (muteRoomStartedMemory message) ''messages''
        (call (UseModel TEXT_SMALL (shouldMutePrompt core state) []) w))"
  by (simp add: shouldMute_def)

lemma shouldMute_negative:
  "useModel runtime TEXT_SMALL (shouldMutePrompt core state) [] = Inr response \<Longrightarrow>
   \<not> affirmativeResponse (toLowerCase (trim response)) \<Longrightarrow>
   negativeResponse (toLowerCase (trim response)) \<Longrightarrow>
   shouldMute core runtime message state w =
     (Inr False,
      call (LoggerWarn (unclearWarning response))
        (createMemory (muteRoomFailedMemory message) ''messages''
          (call (UseModel TEXT_SMALL (shouldMutePrompt core state) []) w)))"
  by (simp add: shouldMute_def)

lemma shouldMute_unclear:
  "useModel runtime TEXT_SMALL (shouldMutePrompt core state) [] = Inr response \<Longrightarrow>
   \<not> affirmativeResponse (toLowerCase (trim response)) \<Longrightarrow>
   \<not> negativeResponse (toLowerCase (trim response)) \<Longrightarrow>
   shouldMute core runtime message state w =
     (Inr False,
      call (LoggerWarn (unclearWarning response))
        (call (UseModel TEXT_SMALL (shouldMutePrompt core state) []) w))"
  by (simp add: shouldMute_def)

text \<open>The three ways the closing stage ends.\<close>

lemma closingRecords_cached:
  "data_room state = Some room \<Longrightarrow>
   closingRecords core runtime message state w =
     (Inr (),
      createMemory (muteMessage core runtime message room) ''messages''
        (createMemory (muteRoomStartMemory message room) ''messages'' w))"
  by (simp add: closingRecords_def appendClosing_def)

lemma closingRecords_fetched:
  "data_room state = None \<Longrightarrow> getRoom runtime (roomId message) = Inr (Some room) \<Longrightarrow>
   closingRecords core runtime message state w =
     (Inr (),
      createMemory (muteMessage core runtime message room) ''messages''
        (createMemory (muteRoomStartMemory message room) ''messages''
          (call (GetRoom (roomId message)) w)))"
  by (simp add: closingRecords_def appendClosing_def)

lemma closingRecords_rejected:
  "data_room state = None \<Longrightarrow> getRoom runtime (roomId message) = Inl e \<Longrightarrow>
   closingRecords core runtime message state w = (Inl e, call (GetRoom (roomId message)) w)"
  by (simp add: closingRecords_def)

lemma closingRecords_null:
  "data_room state = None \<Longrightarrow> getRoom runtime (roomId message) = Inr None \<Longrightarrow>
   closingRecords core runtime message state w =
     (Inl TypeError, call (GetRoom (roomId message)) w)"
  by (simp add: closingRecords_def)

lemma closingRecords_participantUserState:
  "participantUserState (snd (closingRecords core runtime message state w)) =
     participantUserState w"
  by (simp add: closingRecords_def appendClosing_def Let_def split: option.splits sum.splits)

lemma closingRecords_cases:
  obtains (cached) room where "data_room state = Some room"
  | (fetched) room where "data_room state = None" "getRoom runtime (roomId message) = Inr (Some room)"
  | (rejected) e where "data_room state = None" "getRoom runtime (roomId message) = Inl e"
  | (null) "data_room state = None" "getRoom runtime (roomId message) = Inr None"
  by (cases "data_room state"; cases "getRoom runtime (roomId message)") auto

lemma closingRecords_memories:
  "\<exists>ms. memories (snd (closingRecords core runtime message state w)) = memories w @ ms \<and>
        filter (hasAction ''MUTE_ROOM_STARTED'') ms = [] \<and>
        filter (hasAction ''MUTE_ROOM_FAILED'') ms = []"
  by (cases rule: closingRecords_cases [where state = state and runtime = runtime and message = message])
    (simp_all add: closingRecords_cached closingRecords_fetched closingRecords_rejected closingRecords_null)

lemma closingRecords_trace:
  "\<exists>evs. trace (snd (closingRecords core runtime message state w)) = trace w @ evs \<and>
        filter isSetParticipantUserState evs = [] \<and> filter isUseModel evs = []"
  by (cases rule: closingRecords_cases [where state = state and runtime = runtime and message = message])
    (simp_all add: closingRecords_cached closingRecords_fetched closingRecords_rejected closingRecords_null)

lemma handler_Some:
  "handler core runtime message (Some state) w =
     (case shouldMute core runtime message state w of
        (Inl e, w1) \<Rightarrow> (Inl e, w1)
      | (Inr muting, w1) \<Rightarrow>
          closingRecords core runtime message state
            (if muting
             then setParticipantUserState (roomId message) (runtime_agentId runtime) ''MUTED'' w1
             else w1))"
  by (simp add: handler_def)

lemma shouldMute_extends:
  "\<exists>ms evs. memories (snd (shouldMute core runtime message state w)) = memories w @ ms \<and>
      trace (snd (shouldMute core runtime message state w)) = trace w @ evs \<and>
      filter isSetParticipantUserState evs = [] \<and>
      filter isGetRoom evs = [] \<and>
      filter (hasAction ''MUTE_ROOM_START'') ms = [] \<and>
      filter (hasAction ''MUTE_ROOM'') ms = []"
  by (simp add: shouldMute_def Let_def split: sum.splits)

lemma shouldMute_participantUserState:
  "participantUserState (snd (shouldMute core runtime message state w)) = participantUserState w"
  by (simp add: shouldMute_def Let_def split: sum.splits)

lemma shouldMute_resolves:
  "useModel runtime TEXT_SMALL (shouldMutePrompt core state) [] = Inr response \<Longrightarrow>
   \<exists>muting. fst (shouldMute core runtime message state w) = Inr muting"
  by (auto simp: shouldMute_def Let_def)

text \<open>
  When the completion service replies, the handler reaches the closing stage, in a world
  that extends the initial one and holds no closing record and no room lookup yet.
\<close>

lemma handler_reaches_closing:
  assumes "useModel runtime TEXT_SMALL (shouldMutePrompt core state) [] = Inr response"
  shows "\<exists>w2 ms evs.
           handler core runtime message (Some state) w =
             closingRecords core runtime message state w2 \<and>
           memories w2 = memories w @ ms \<and>
           trace w2 = trace w @ evs \<and>
           filter isGetRoom evs = [] \<and>
           filter (hasAction ''MUTE_ROOM_START'') ms = [] \<and>
           filter (hasAction ''MUTE_ROOM'') ms = []"
proof -
  obtain muting where m: "fst (shouldMute core runtime message state w) = Inr muting"
    using shouldMute_resolves [OF assms] by blast
  define w1 where "w1 = snd (shouldMute core runtime message state w)"
  define w2 where "w2 = (if muting
     then setParticipantUserState (roomId message) (runtime_agentId runtime) ''MUTED'' w1 else w1)"
  have sm: "shouldMute core runtime message state w = (Inr muting, w1)"
    using m by (simp add: w1_def prod_eq_iff)
  have h: "handler core runtime message (Some state) w =
             closingRecords core runtime message state w2"
    by (simp add: handler_Some sm w2_def)
  obtain ms evs where e: "memories w1 = memories w @ ms" "trace w1 = trace w @ evs"
    "filter isGetRoom evs = []" "filter (hasAction ''MUTE_ROOM_START'') ms = []"
    "filter (hasAction ''MUTE_ROOM'') ms = []"
    using shouldMute_extends [of core runtime message state w] unfolding w1_def by blast
  show ?thesis
  proof (cases muting)
    case True
    then have "memories w2 = memories w @ ms"
      "trace w2 = trace w @ (evs @ [SetParticipantUserState (roomId message) (runtime_agentId runtime) ''MUTED''])"
      by (simp_all add: w2_def e)
    moreover have "filter isGetRoom
        (evs @ [SetParticipantUserState (roomId message) (runtime_agentId runtime) ''MUTED'']) = []"
      by (simp add: e)
    ultimately show ?thesis using h e by blast
  next
    case False
    then have "w2 = w1" by (simp add: w2_def)
    then show ?thesis using h e by blast
  qed
qed

lemma handler_not_muting:
  "shouldMute core runtime message state w = (Inr False, w1) \<Longrightarrow>
   handler core runtime message (Some state) w = closingRecords core runtime message state w1"
  by (simp add: handler_Some)

lemma drop_last_two: "drop (length (xs @ [a, b]) - 2) (xs @ [a, b]) = [a, b]"
  by simp

lemma validate_eq:
  "validate runtime message w =
     (participantUserState w (roomId message, runtime_agentId runtime) \<noteq> Some ''MUTED'',
      call (GetParticipantUserState (roomId message) (runtime_agentId runtime)) w)"
  by (simp add: validate_def getParticipantUserState_def)

subsection \<open>Some replies, normalised\<close>

lemma yes_reply_includes_yes:
  "includes_str (toLowerCase (trim ''YES I think we should mute'')) ''yes''"
  by code_simp

lemma no_reply_is_negative: "negativeResponse (toLowerCase (trim ''No, keep talking''))"
  by code_simp

lemma no_reply_is_not_affirmative: "\<not> affirmativeResponse (toLowerCase (trim ''No, keep talking''))"
  by code_simp

lemma yes_and_no_reply:
  "includes_str (toLowerCase (trim ''No... well, yes.'')) ''yes''"
  "includes_str (toLowerCase (trim ''No... well, yes.'')) ''no''"
  by code_simp+

lemma maybe_reply:
  "\<not> affirmativeResponse (toLowerCase (trim ''maybe?''))"
  "\<not> negativeResponse (toLowerCase (trim ''maybe?''))"
  by code_simp+

lemma hmm_reply:
  "\<not> affirmativeResponse (toLowerCase (trim ''Hmm''))"
  "\<not> negativeResponse (toLowerCase (trim ''Hmm''))"
  by code_simp+

lemma plain_no_reply:
  "\<not> affirmativeResponse (toLowerCase (trim ''no''))"
  "negativeResponse (toLowerCase (trim ''no''))"
  by code_simp+

subsection \<open>The claims\<close>

text \<open>
  C1. When the completion service replies and the trimmed, lowercased reply equals
  "true", "yes" or "y", or contains "true" or "yes", the classifier returns true and has
  appended exactly one memory, the one with thought "I will now mute this room" and action
  tag MUTE\_ROOM\_STARTED, on the channel "messages"; it is the only memory with that tag
  that the whole invocation appends. The first three calls of the handler are the
  completion call, that append, and the write of MUTED for (message.roomId, agentId), and
  the participant state of that pair is MUTED when the handler ends.
\<close>

theorem C1_affirmative_reply_mutes:
  assumes reply: "useModel runtime TEXT_SMALL (shouldMutePrompt core state) [] = Inr response"
    and affirmative:
      "toLowerCase (trim response) = ''true'' \<or>
       toLowerCase (trim response) = ''yes'' \<or>
       toLowerCase (trim response) = ''y'' \<or>
       includes_str (toLowerCase (trim response)) ''true'' \<or>
       includes_str (toLowerCase (trim response)) ''yes''"
  shows
    "(let w1 = snd (shouldMute core runtime message state w);
          w' = snd (handler core runtime message (Some state) w)
      in fst (shouldMute core runtime message state w) = Inr True \<and>
         appended w w1 = [(muteRoomStartedMemory message, ''messages'')] \<and>
         thought (content (muteRoomStartedMemory message)) = Some ''I will now mute this room'' \<and>
         actions (content (muteRoomStartedMemory message)) = Some [''MUTE_ROOM_STARTED''] \<and>
         filter (hasAction ''MUTE_ROOM_STARTED'') (appended w w') =
           [(muteRoomStartedMemory message, ''messages'')] \<and>
         take 3 (newCalls w w') =
           [UseModel TEXT_SMALL (shouldMutePrompt core state) [],
            CreateMemory (muteRoomStartedMemory message) ''messages'',
            SetParticipantUserState (roomId message) (runtime_agentId runtime) ''MUTED''] \<and>
         participantUserState w' (roomId message, runtime_agentId runtime) = Some ''MUTED'')"
proof -
  let ?w1 = "createMemory (muteRoomStartedMemory message) ''messages''
               (call (UseModel TEXT_SMALL (shouldMutePrompt core state) []) w)"
  let ?w2 = "setParticipantUserState (roomId message) (runtime_agentId runtime) ''MUTED'' ?w1"
  from affirmative have aff: "affirmativeResponse (toLowerCase (trim response))"
    by (simp add: affirmativeResponse_def)
  have sm: "shouldMute core runtime message state w = (Inr True, ?w1)"
    by (rule shouldMute_affirmative [OF reply aff])
  have h: "handler core runtime message (Some state) w =
             closingRecords core runtime message state ?w2"
    by (simp add: handler_Some sm)
  obtain ms where ms: "memories (snd (closingRecords core runtime message state ?w2)) = memories ?w2 @ ms"
    "filter (hasAction ''MUTE_ROOM_STARTED'') ms = []"
    using closingRecords_memories by blast
  obtain evs where evs: "trace (snd (closingRecords core runtime message state ?w2)) = trace ?w2 @ evs"
    using closingRecords_trace by blast
  have a: "fst (shouldMute core runtime message state w) = Inr True"
    by (simp add: sm)
  have b: "appended w (snd (shouldMute core runtime message state w)) =
             [(muteRoomStartedMemory message, ''messages'')]"
    by (simp add: sm appended_def)
  have c: "thought (content (muteRoomStartedMemory message)) = Some ''I will now mute this room''"
    "actions (content (muteRoomStartedMemory message)) = Some [''MUTE_ROOM_STARTED'']"
    by (simp_all add: muteRoomStartedMemory_def)
  have d: "filter (hasAction ''MUTE_ROOM_STARTED'')
             (appended w (snd (handler core runtime message (Some state) w))) =
           [(muteRoomStartedMemory message, ''messages'')]"
    by (simp add: h ms appended_def)
  have e: "take 3 (newCalls w (snd (handler core runtime message (Some state) w))) =
           [UseModel TEXT_SMALL (shouldMutePrompt core state) [],
            CreateMemory (muteRoomStartedMemory message) ''messages'',
            SetParticipantUserState (roomId message) (runtime_agentId runtime) ''MUTED'']"
    by (simp add: h evs newCalls_def)
  have f: "participantUserState (snd (handler core runtime message (Some state) w))
             (roomId message, runtime_agentId runtime) = Some ''MUTED''"
    by (simp add: h closingRecords_participantUserState)
  from a b c d e f show ?thesis by (simp add: Let_def)
qed

theorem C1_affirmative_reply_mutes_witness:
  "useModel (replyingRuntime (Inr ''YES I think we should mute'') (Inr None)) TEXT_SMALL
     (shouldMutePrompt someCore stateWithRoom) [] = Inr ''YES I think we should mute'' \<and>
   includes_str (toLowerCase (trim ''YES I think we should mute'')) ''yes'' \<and>
   (let w1 = snd (shouldMute someCore (replyingRuntime (Inr ''YES I think we should mute'') (Inr None))
                    userMessage stateWithRoom emptyWorld);
        w' = snd (handler someCore (replyingRuntime (Inr ''YES I think we should mute'') (Inr None))
                    userMessage (Some stateWithRoom) emptyWorld)
    in fst (shouldMute someCore (replyingRuntime (Inr ''YES I think we should mute'') (Inr None))
              userMessage stateWithRoom emptyWorld) = Inr True \<and>
       appended emptyWorld w1 = [(muteRoomStartedMemory userMessage, ''messages'')] \<and>
       thought (content (muteRoomStartedMemory userMessage)) = Some ''I will now mute this room'' \<and>
       actions (content (muteRoomStartedMemory userMessage)) = Some [''MUTE_ROOM_STARTED''] \<and>
       filter (hasAction ''MUTE_ROOM_STARTED'') (appended emptyWorld w') =
         [(muteRoomStartedMemory userMessage, ''messages'')] \<and>
       take 3 (newCalls emptyWorld w') =
         [UseModel TEXT_SMALL (shouldMutePrompt someCore stateWithRoom) [],
          CreateMemory (muteRoomStartedMemory userMessage) ''messages'',
          SetParticipantUserState (roomId userMessage)
            (runtime_agentId (replyingRuntime (Inr ''YES I think we should mute'') (Inr None))) ''MUTED''] \<and>
       participantUserState w'
         (roomId userMessage,
          runtime_agentId (replyingRuntime (Inr ''YES I think we should mute'') (Inr None))) =
         Some ''MUTED'')"
proof -
  let ?rt = "replyingRuntime (Inr ''YES I think we should mute'') (Inr None)"
  have reply: "useModel ?rt TEXT_SMALL (shouldMutePrompt someCore stateWithRoom) [] =
                 Inr ''YES I think we should mute''"
    by (simp add: replyingRuntime_def)
  have yes: "includes_str (toLowerCase (trim ''YES I think we should mute'')) ''yes''"
    by (rule yes_reply_includes_yes)
  then have affirmative:
    "toLowerCase (trim ''YES I think we should mute'') = ''true'' \<or>
     toLowerCase (trim ''YES I think we should mute'') = ''yes'' \<or>
     toLowerCase (trim ''YES I think we should mute'') = ''y'' \<or>
     includes_str (toLowerCase (trim ''YES I think we should mute'')) ''true'' \<or>
     includes_str (toLowerCase (trim ''YES I think we should mute'')) ''yes''"
    by blast
  from reply yes
    C1_affirmative_reply_mutes [OF reply affirmative, where message = userMessage and w = emptyWorld]
  show ?thesis by blast
qed

text \<open>
  C2. When the completion service replies, the trimmed, lowercased reply does not match
  the affirmative rule, and it equals "false", "no" or "n", or contains "false" or "no",
  the classifier returns false and has appended exactly one memory, the one with thought
  "I decided to not mute this room" and action tag MUTE\_ROOM\_FAILED, on the channel
  "messages"; it is the first memory the handler appends. The handler makes no call of
  setParticipantUserState, and the participant-state store ends as it began.
\<close>

theorem C2_negative_reply_does_not_mute:
  assumes reply: "useModel runtime TEXT_SMALL (shouldMutePrompt core state) [] = Inr response"
    and not_affirmative:
      "\<not> (toLowerCase (trim response) = ''true'' \<or>
          toLowerCase (trim response) = ''yes'' \<or>
          toLowerCase (trim response) = ''y'' \<or>
          includes_str (toLowerCase (trim response)) ''true'' \<or>
          includes_str (toLowerCase (trim response)) ''yes'')"
    and negative:
      "toLowerCase (trim response) = ''false'' \<or>
       toLowerCase (trim response) = ''no'' \<or>
       toLowerCase (trim response) = ''n'' \<or>
       includes_str (toLowerCase (trim response)) ''false'' \<or>
       includes_str (toLowerCase (trim response)) ''no''"
  shows
    "(let w1 = snd (shouldMute core runtime message state w);
          w' = snd (handler core runtime message (Some state) w)
      in fst (shouldMute core runtime message state w) = Inr False \<and>
         appended w w1 = [(muteRoomFailedMemory message, ''messages'')] \<and>
         thought (content (muteRoomFailedMemory message)) = Some ''I decided to not mute this room'' \<and>
         actions (content (muteRoomFailedMemory message)) = Some [''MUTE_ROOM_FAILED''] \<and>
         take 1 (appended w w') = [(muteRoomFailedMemory message, ''messages'')] \<and>
         filter (hasAction ''MUTE_ROOM_FAILED'') (appended w w') =
           [(muteRoomFailedMemory message, ''messages'')] \<and>
         filter isSetParticipantUserState (newCalls w w') = [] \<and>
         participantUserState w' = participantUserState w)"
proof -
  let ?w1 = "call (LoggerWarn (unclearWarning response))
               (createMemory (muteRoomFailedMemory message) ''messages''
                 (call (UseModel TEXT_SMALL (shouldMutePrompt core state) []) w))"
  from not_affirmative have naff: "\<not> affirmativeResponse (toLowerCase (trim response))"
    by (simp add: affirmativeResponse_def)
  from negative have neg: "negativeResponse (toLowerCase (trim response))"
    by (simp add: negativeResponse_def)
  have sm: "shouldMute core runtime message state w = (Inr False, ?w1)"
    by (rule shouldMute_negative [OF reply naff neg])
  have h: "handler core runtime message (Some state) w =
             closingRecords core runtime message state ?w1"
    by (rule handler_not_muting [OF sm])
  obtain ms where ms: "memories (snd (closingRecords core runtime message state ?w1)) = memories ?w1 @ ms"
    "filter (hasAction ''MUTE_ROOM_FAILED'') ms = []"
    using closingRecords_memories by blast
  obtain evs where evs: "trace (snd (closingRecords core runtime message state ?w1)) = trace ?w1 @ evs"
    "filter isSetParticipantUserState evs = []"
    using closingRecords_trace by blast
  have a: "fst (shouldMute core runtime message state w) = Inr False"
    by (simp add: sm)
  have b: "appended w (snd (shouldMute core runtime message state w)) =
             [(muteRoomFailedMemory message, ''messages'')]"
    by (simp add: sm appended_def)
  have c: "thought (content (muteRoomFailedMemory message)) = Some ''I decided to not mute this room''"
    "actions (content (muteRoomFailedMemory message)) = Some [''MUTE_ROOM_FAILED'']"
    by (simp_all add: muteRoomFailedMemory_def)
  have d: "take 1 (appended w (snd (handler core runtime message (Some state) w))) =
             [(muteRoomFailedMemory message, ''messages'')]"
    "filter (hasAction ''MUTE_ROOM_FAILED'')
       (appended w (snd (handler core runtime message (Some state) w))) =
     [(muteRoomFailedMemory message, ''messages'')]"
    by (simp_all add: h ms appended_def)
  have e: "filter isSetParticipantUserState
             (newCalls w (snd (handler core runtime message (Some state) w))) = []"
    by (simp add: h evs newCalls_def)
  have f: "participantUserState (snd (handler core runtime message (Some state) w)) =
             participantUserState w"
    by (simp add: h closingRecords_participantUserState)
  from a b c d e f show ?thesis by (simp add: Let_def)
qed

theorem C2_negative_reply_does_not_mute_witness:
  "useModel (replyingRuntime (Inr ''No, keep talking'') (Inr None)) TEXT_SMALL
     (shouldMutePrompt someCore stateWithRoom) [] = Inr ''No, keep talking'' \<and>
   \<not> affirmativeResponse (toLowerCase (trim ''No, keep talking'')) \<and>
   negativeResponse (toLowerCase (trim ''No, keep talking'')) \<and>
   (let w1 = snd (shouldMute someCore (replyingRuntime (Inr ''No, keep talking'') (Inr None))
                    userMessage stateWithRoom emptyWorld);
        w' = snd (handler someCore (replyingRuntime (Inr ''No, keep talking'') (Inr None))
                    userMessage (Some stateWithRoom) emptyWorld)
    in fst (shouldMute someCore (replyingRuntime (Inr ''No, keep talking'') (Inr None))
              userMessage stateWithRoom emptyWorld) = Inr False \<and>
       appended emptyWorld w1 = [(muteRoomFailedMemory userMessage, ''messages'')] \<and>
       thought (content (muteRoomFailedMemory userMessage)) = Some ''I decided to not mute this room'' \<and>
       actions (content (muteRoomFailedMemory userMessage)) = Some [''MUTE_ROOM_FAILED''] \<and>
       take 1 (appended emptyWorld w') = [(muteRoomFailedMemory userMessage, ''messages'')] \<and>
       filter (hasAction ''MUTE_ROOM_FAILED'') (appended emptyWorld w') =
         [(muteRoomFailedMemory userMessage, ''messages'')] \<and>
       filter isSetParticipantUserState (newCalls emptyWorld w') = [] \<and>
       participantUserState w' = participantUserState emptyWorld)"
proof -
  let ?rt = "replyingRuntime (Inr ''No, keep talking'') (Inr None)"
  have reply: "useModel ?rt TEXT_SMALL (shouldMutePrompt someCore stateWithRoom) [] =
                 Inr ''No, keep talking''"
    by (simp add: replyingRuntime_def)
  note naff = no_reply_is_not_affirmative and neg = no_reply_is_negative
  from reply naff neg
    C2_negative_reply_does_not_mute [OF reply naff [unfolded affirmativeResponse_def]
      neg [unfolded negativeResponse_def], where message = userMessage and w = emptyWorld]
  show ?thesis by blast
qed

text \<open>
  C3. When a state snapshot is supplied, the completion service replies (whatever the
  reply, so whether the classifier answers true or false) and the room resolves, from the
  snapshot or from getRoom, the handler returns normally, and the last two memories it
  appends, by its last two calls, are on the channel "messages": first the closing audit
  memory with thought "I muted the room " followed by the room's name and action tag
  MUTE\_ROOM\_START, then the message whose entityId and agentId are the agent's own
  identifier, with empty text, the same thought, action tag MUTE\_ROOM, and the source
  and room of the triggering message.
\<close>

theorem C3_closing_records_whatever_the_outcome:
  assumes reply: "useModel runtime TEXT_SMALL (shouldMutePrompt core state) [] = Inr response"
    and resolves:
      "data_room state = Some room \<or>
       (data_room state = None \<and> getRoom runtime (roomId message) = Inr (Some room))"
  shows
    "(let w' = snd (handler core runtime message (Some state) w);
          closing = muteRoomStartMemory message room;
          synthetic = muteMessage core runtime message room
      in fst (handler core runtime message (Some state) w) = Inr () \<and>
         drop (length (appended w w') - 2) (appended w w') =
           [(closing, ''messages''), (synthetic, ''messages'')] \<and>
         drop (length (newCalls w w') - 2) (newCalls w w') =
           [CreateMemory closing ''messages'', CreateMemory synthetic ''messages''] \<and>
         thought (content closing) = Some (''I muted the room '' @ room_name room) \<and>
         actions (content closing) = Some [''MUTE_ROOM_START''] \<and>
         entityId synthetic = runtime_agentId runtime \<and>
         agentId synthetic = Some (runtime_agentId runtime) \<and>
         content_text (content synthetic) = Some [] \<and>
         thought (content synthetic) = thought (content closing) \<and>
         actions (content synthetic) = Some [''MUTE_ROOM''] \<and>
         source (content synthetic) = source (content message) \<and>
         roomId synthetic = roomId message)"
proof -
  let ?closing = "muteRoomStartMemory message room"
  let ?synthetic = "muteMessage core runtime message room"
  let ?w' = "snd (handler core runtime message (Some state) w)"
  obtain w2 ms evs where h:
    "handler core runtime message (Some state) w = closingRecords core runtime message state w2"
    and w2: "memories w2 = memories w @ ms" "trace w2 = trace w @ evs"
    using handler_reaches_closing [OF reply] by blast
  have a: "fst (handler core runtime message (Some state) w) = Inr () \<and>
           appended w ?w' = ms @ [(?closing, ''messages''), (?synthetic, ''messages'')] \<and>
           (\<exists>evs'. newCalls w ?w' =
              evs' @ [CreateMemory ?closing ''messages'', CreateMemory ?synthetic ''messages''])"
    using resolves
  proof
    assume "data_room state = Some room"
    then show ?thesis
      by (simp add: h closingRecords_cached w2 appended_def newCalls_def)
  next
    assume "data_room state = None \<and> getRoom runtime (roomId message) = Inr (Some room)"
    then have "closingRecords core runtime message state w2 =
       (Inr (), createMemory ?synthetic ''messages''
          (createMemory ?closing ''messages'' (call (GetRoom (roomId message)) w2)))"
      by (simp add: closingRecords_fetched)
    then have "fst (handler core runtime message (Some state) w) = Inr ()"
      "appended w ?w' = ms @ [(?closing, ''messages''), (?synthetic, ''messages'')]"
      "newCalls w ?w' = (evs @ [GetRoom (roomId message)]) @
          [CreateMemory ?closing ''messages'', CreateMemory ?synthetic ''messages'']"
      by (simp_all add: h w2 appended_def newCalls_def)
    then show ?thesis by blast
  qed
  then obtain evs' where calls: "newCalls w ?w' =
      evs' @ [CreateMemory ?closing ''messages'', CreateMemory ?synthetic ''messages'']"
    by blast
  have b: "drop (length (appended w ?w') - 2) (appended w ?w') =
             [(?closing, ''messages''), (?synthetic, ''messages'')]"
    using a drop_last_two [of ms] by simp
  have c: "drop (length (newCalls w ?w') - 2) (newCalls w ?w') =
             [CreateMemory ?closing ''messages'', CreateMemory ?synthetic ''messages'']"
    using calls drop_last_two [of evs'] by simp
  have d: "thought (content ?closing) = Some (''I muted the room '' @ room_name room)"
    "actions (content ?closing) = Some [''MUTE_ROOM_START'']"
    by (simp_all add: muteRoomStartMemory_def)
  have e: "entityId ?synthetic = runtime_agentId runtime"
    "agentId ?synthetic = Some (runtime_agentId runtime)"
    "content_text (content ?synthetic) = Some []"
    "thought (content ?synthetic) = thought (content ?closing)"
    "actions (content ?synthetic) = Some [''MUTE_ROOM'']"
    "source (content ?synthetic) = source (content message)"
    "roomId ?synthetic = roomId message"
    by (simp_all add: muteMessage_def muteRoomStartMemory_def)
  from a b c d e show ?thesis by (simp add: Let_def)
qed

theorem C3_closing_records_whatever_the_outcome_witness:
  "useModel (replyingRuntime (Inr ''N'') (Inr (Some generalRoom))) TEXT_SMALL
     (shouldMutePrompt someCore stateWithoutRoom) [] = Inr ''N'' \<and>
   data_room stateWithoutRoom = None \<and>
   getRoom (replyingRuntime (Inr ''N'') (Inr (Some generalRoom))) (roomId userMessage) =
     Inr (Some generalRoom) \<and>
   fst (shouldMute someCore (replyingRuntime (Inr ''N'') (Inr (Some generalRoom)))
          userMessage stateWithoutRoom emptyWorld) = Inr False \<and>
   (let w' = snd (handler someCore (replyingRuntime (Inr ''N'') (Inr (Some generalRoom)))
                    userMessage (Some stateWithoutRoom) emptyWorld);
        closing = muteRoomStartMemory userMessage generalRoom;
        synthetic = muteMessage someCore (replyingRuntime (Inr ''N'') (Inr (Some generalRoom)))
                      userMessage generalRoom
    in fst (handler someCore (replyingRuntime (Inr ''N'') (Inr (Some generalRoom)))
              userMessage (Some stateWithoutRoom) emptyWorld) = Inr () \<and>
       drop (length (appended emptyWorld w') - 2) (appended emptyWorld w') =
         [(closing, ''messages''), (synthetic, ''messages'')] \<and>
       drop (length (newCalls emptyWorld w') - 2) (newCalls emptyWorld w') =
         [CreateMemory closing ''messages'', CreateMemory synthetic ''messages''] \<and>
       thought (content closing) = Some (''I muted the room '' @ room_name generalRoom) \<and>
       actions (content closing) = Some [''MUTE_ROOM_START''] \<and>
       entityId synthetic = runtime_agentId (replyingRuntime (Inr ''N'') (Inr (Some generalRoom))) \<and>
       agentId synthetic =
         Some (runtime_agentId (replyingRuntime (Inr ''N'') (Inr (Some generalRoom)))) \<and>
       content_text (content synthetic) = Some [] \<and>
       thought (content synthetic) = thought (content closing) \<and>
       actions (content synthetic) = Some [''MUTE_ROOM''] \<and>
       source (content synthetic) = source (content userMessage) \<and>
       roomId synthetic = roomId userMessage)"
proof -
  let ?rt = "replyingRuntime (Inr ''N'') (Inr (Some generalRoom))"
  have reply: "useModel ?rt TEXT_SMALL (shouldMutePrompt someCore stateWithoutRoom) [] = Inr ''N''"
    by (simp add: replyingRuntime_def)
  have room: "data_room stateWithoutRoom = None"
    "getRoom ?rt (roomId userMessage) = Inr (Some generalRoom)"
    by (simp_all add: stateWithoutRoom_def replyingRuntime_def)
  then have resolves: "data_room stateWithoutRoom = Some generalRoom \<or>
     (data_room stateWithoutRoom = None \<and> getRoom ?rt (roomId userMessage) = Inr (Some generalRoom))"
    by blast
  have naff: "\<not> affirmativeResponse (toLowerCase (trim ''N''))" by code_simp
  have neg: "negativeResponse (toLowerCase (trim ''N''))" by code_simp
  have outcome: "fst (shouldMute someCore ?rt userMessage stateWithoutRoom emptyWorld) = Inr False"
    by (simp add: shouldMute_negative [OF reply naff neg])
  from reply room outcome
    C3_closing_records_whatever_the_outcome [OF reply resolves, where w = emptyWorld]
  show ?thesis by blast
qed

text \<open>
  C4. When the participant state of (message.roomId, agentId) is MUTED, validate returns
  false, and the workflow that runs the handler only when validate returns true ends
  normally after a single call, the read of the participant state: it makes no completion
  call, no call of setParticipantUserState and no call of createMemory, and both stores
  end as they began.
\<close>

theorem C4_guard_short_circuits:
  assumes muted: "participantUserState w (roomId message, runtime_agentId runtime) = Some ''MUTED''"
  shows
    "(let w' = snd (workflow core runtime message state w)
      in fst (validate runtime message w) = False \<and>
         fst (workflow core runtime message state w) = Inr () \<and>
         newCalls w w' = [GetParticipantUserState (roomId message) (runtime_agentId runtime)] \<and>
         filter isUseModel (newCalls w w') = [] \<and>
         participantUserState w' = participantUserState w \<and>
         filter isSetParticipantUserState (newCalls w w') = [] \<and>
         memories w' = memories w \<and>
         filter isCreateMemory (newCalls w w') = [])"
proof -
  have v: "validate runtime message w =
             (False, call (GetParticipantUserState (roomId message) (runtime_agentId runtime)) w)"
    by (simp add: validate_eq muted)
  have wf: "workflow core runtime message state w =
             (Inr (), call (GetParticipantUserState (roomId message) (runtime_agentId runtime)) w)"
    by (simp add: workflow_def v)
  show ?thesis
    by (simp add: Let_def v wf newCalls_def)
qed

theorem C4_guard_short_circuits_witness:
  "participantUserState mutedWorld
     (roomId userMessage, runtime_agentId (replyingRuntime (Inr ''YES'') (Inr None))) = Some ''MUTED'' \<and>
   (let w' = snd (workflow someCore (replyingRuntime (Inr ''YES'') (Inr None)) userMessage
                    (Some stateWithRoom) mutedWorld)
    in fst (validate (replyingRuntime (Inr ''YES'') (Inr None)) userMessage mutedWorld) = False \<and>
       fst (workflow someCore (replyingRuntime (Inr ''YES'') (Inr None)) userMessage
              (Some stateWithRoom) mutedWorld) = Inr () \<and>
       newCalls mutedWorld w' =
         [GetParticipantUserState (roomId userMessage)
            (runtime_agentId (replyingRuntime (Inr ''YES'') (Inr None)))] \<and>
       filter isUseModel (newCalls mutedWorld w') = [] \<and>
       participantUserState w' = participantUserState mutedWorld \<and>
       filter isSetParticipantUserState (newCalls mutedWorld w') = [] \<and>
       memories w' = memories mutedWorld \<and>
       filter isCreateMemory (newCalls mutedWorld w') = [])"
proof -
  have muted: "participantUserState mutedWorld
     (roomId userMessage, runtime_agentId (replyingRuntime (Inr ''YES'') (Inr None))) = Some ''MUTED''"
    by (simp add: mutedWorld_def userMessage_def replyingRuntime_def)
  from muted
    C4_guard_short_circuits [OF muted, where core = someCore and state = "Some stateWithRoom"]
  show ?thesis by blast
qed

text \<open>
  C5. When the trimmed, lowercased reply contains "yes" or "true" and also contains "no"
  or "false", the affirmative check wins: the classifier returns true and appends only the
  MUTE\_ROOM\_STARTED memory, the whole invocation appends that memory once and no memory
  tagged MUTE\_ROOM\_FAILED, and the participant state ends MUTED.
\<close>

theorem C5_affirmative_checked_first:
  assumes reply: "useModel runtime TEXT_SMALL (shouldMutePrompt core state) [] = Inr response"
    and affirmative:
      "includes_str (toLowerCase (trim response)) ''yes'' \<or>
       includes_str (toLowerCase (trim response)) ''true''"
    and negative:
      "includes_str (toLowerCase (trim response)) ''no'' \<or>
       includes_str (toLowerCase (trim response)) ''false''"
  shows
    "(let w1 = snd (shouldMute core runtime message state w);
          w' = snd (handler core runtime message (Some state) w)
      in fst (shouldMute core runtime message state w) = Inr True \<and>
         appended w w1 = [(muteRoomStartedMemory message, ''messages'')] \<and>
         filter (hasAction ''MUTE_ROOM_STARTED'') (appended w w') =
           [(muteRoomStartedMemory message, ''messages'')] \<and>
         filter (hasAction ''MUTE_ROOM_FAILED'') (appended w w') = [] \<and>
         participantUserState w' (roomId message, runtime_agentId runtime) = Some ''MUTED'')"
proof -
  let ?w1 = "createMemory (muteRoomStartedMemory message) ''messages''
               (call (UseModel TEXT_SMALL (shouldMutePrompt core state) []) w)"
  let ?w2 = "setParticipantUserState (roomId message) (runtime_agentId runtime) ''MUTED'' ?w1"
  from affirmative have aff: "affirmativeResponse (toLowerCase (trim response))"
    by (auto simp: affirmativeResponse_def)
  have sm: "shouldMute core runtime message state w = (Inr True, ?w1)"
    by (rule shouldMute_affirmative [OF reply aff])
  have h: "handler core runtime message (Some state) w =
             closingRecords core runtime message state ?w2"
    by (simp add: handler_Some sm)
  obtain ms where ms: "memories (snd (closingRecords core runtime message state ?w2)) = memories ?w2 @ ms"
    "filter (hasAction ''MUTE_ROOM_STARTED'') ms = []"
    "filter (hasAction ''MUTE_ROOM_FAILED'') ms = []"
    using closingRecords_memories by blast
  have a: "fst (shouldMute core runtime message state w) = Inr True"
    "appended w (snd (shouldMute core runtime message state w)) =
       [(muteRoomStartedMemory message, ''messages'')]"
    by (simp_all add: sm appended_def)
  have b: "filter (hasAction ''MUTE_ROOM_STARTED'')
             (appended w (snd (handler core runtime message (Some state) w))) =
           [(muteRoomStartedMemory message, ''messages'')]"
    "filter (hasAction ''MUTE_ROOM_FAILED'')
             (appended w (snd (handler core runtime message (Some state) w))) = []"
    by (simp_all add: h ms appended_def)
  have c: "participantUserState (snd (handler core runtime message (Some state) w))
             (roomId message, runtime_agentId runtime) = Some ''MUTED''"
    by (simp add: h closingRecords_participantUserState)
  from a b c show ?thesis by (simp add: Let_def)
qed

theorem C5_affirmative_checked_first_witness:
  "useModel (replyingRuntime (Inr ''No... well, yes.'') (Inr None)) TEXT_SMALL
     (shouldMutePrompt someCore stateWithRoom) [] = Inr ''No... well, yes.'' \<and>
   includes_str (toLowerCase (trim ''No... well, yes.'')) ''yes'' \<and>
   includes_str (toLowerCase (trim ''No... well, yes.'')) ''no'' \<and>
   (let w1 = snd (shouldMute someCore (replyingRuntime (Inr ''No... well, yes.'') (Inr None))
                    userMessage stateWithRoom emptyWorld);
        w' = snd (handler someCore (replyingRuntime (Inr ''No... well, yes.'') (Inr None))
                    userMessage (Some stateWithRoom) emptyWorld)
    in fst (shouldMute someCore (replyingRuntime (Inr ''No... well, yes.'') (Inr None))
              userMessage stateWithRoom emptyWorld) = Inr True \<and>
       appended emptyWorld w1 = [(muteRoomStartedMemory userMessage, ''messages'')] \<and>
       filter (hasAction ''MUTE_ROOM_STARTED'') (appended emptyWorld w') =
         [(muteRoomStartedMemory userMessage, ''messages'')] \<and>
       filter (hasAction ''MUTE_ROOM_FAILED'') (appended emptyWorld w') = [] \<and>
       participantUserState w'
         (roomId userMessage,
          runtime_agentId (replyingRuntime (Inr ''No... well, yes.'') (Inr None))) = Some ''MUTED'')"
proof -
  let ?rt = "replyingRuntime (Inr ''No... well, yes.'') (Inr None)"
  have reply: "useModel ?rt TEXT_SMALL (shouldMutePrompt someCore stateWithRoom) [] =
                 Inr ''No... well, yes.''"
    by (simp add: replyingRuntime_def)
  note yes = yes_and_no_reply(1) and no = yes_and_no_reply(2)
  from reply yes no
    C5_affirmative_checked_first [OF reply disjI1 [OF yes] disjI1 [OF no],
      where message = userMessage and w = emptyWorld]
  show ?thesis by blast
qed

text \<open>
  C6. When the trimmed, lowercased reply matches neither the affirmative nor the negative
  rule, the classifier returns false without raising: it appends no memory and leaves the
  participant states alone, and its only calls are the completion call and the warning
  "Unclear boolean response: " followed by the reply and ", defaulting to false". The
  whole invocation appends no memory tagged MUTE\_ROOM\_STARTED or MUTE\_ROOM\_FAILED,
  makes no call of setParticipantUserState, and leaves the participant-state store as it
  was.
\<close>

theorem C6_unclear_reply_is_no_mute:
  assumes reply: "useModel runtime TEXT_SMALL (shouldMutePrompt core state) [] = Inr response"
    and not_affirmative:
      "\<not> (toLowerCase (trim response) = ''true'' \<or>
          toLowerCase (trim response) = ''yes'' \<or>
          toLowerCase (trim response) = ''y'' \<or>
          includes_str (toLowerCase (trim response)) ''true'' \<or>
          includes_str (toLowerCase (trim response)) ''yes'')"
    and not_negative:
      "\<not> (toLowerCase (trim response) = ''false'' \<or>
          toLowerCase (trim response) = ''no'' \<or>
          toLowerCase (trim response) = ''n'' \<or>
          includes_str (toLowerCase (trim response)) ''false'' \<or>
          includes_str (toLowerCase (trim response)) ''no'')"
  shows
    "(let w1 = snd (shouldMute core runtime message state w);
          w' = snd (handler core runtime message (Some state) w)
      in fst (shouldMute core runtime message state w) = Inr False \<and>
         appended w w1 = [] \<and>
         participantUserState w1 = participantUserState w \<and>
         newCalls w w1 =
           [UseModel TEXT_SMALL (shouldMutePrompt core state) [],
            LoggerWarn (''Unclear boolean response: '' @ response @ '', defaulting to false'')] \<and>
         filter (hasAction ''MUTE_ROOM_STARTED'') (appended w w') = [] \<and>
         filter (hasAction ''MUTE_ROOM_FAILED'') (appended w w') = [] \<and>
         filter isSetParticipantUserState (newCalls w w') = [] \<and>
         participantUserState w' = participantUserState w)"
proof -
  let ?w1 = "call (LoggerWarn (unclearWarning response))
               (call (UseModel TEXT_SMALL (shouldMutePrompt core state) []) w)"
  from not_affirmative have naff: "\<not> affirmativeResponse (toLowerCase (trim response))"
    by (simp add: affirmativeResponse_def)
  from not_negative have nneg: "\<not> negativeResponse (toLowerCase (trim response))"
    by (simp add: negativeResponse_def)
  have sm: "shouldMute core runtime message state w = (Inr False, ?w1)"
    by (rule shouldMute_unclear [OF reply naff nneg])
  have h: "handler core runtime message (Some state) w =
             closingRecords core runtime message state ?w1"
    by (rule handler_not_muting [OF sm])
  obtain ms where ms: "memories (snd (closingRecords core runtime message state ?w1)) = memories ?w1 @ ms"
    "filter (hasAction ''MUTE_ROOM_STARTED'') ms = []"
    "filter (hasAction ''MUTE_ROOM_FAILED'') ms = []"
    using closingRecords_memories by blast
  obtain evs where evs: "trace (snd (closingRecords core runtime message state ?w1)) = trace ?w1 @ evs"
    "filter isSetParticipantUserState evs = []"
    using closingRecords_trace by blast
  have a: "fst (shouldMute core runtime message state w) = Inr False"
    "appended w (snd (shouldMute core runtime message state w)) = []"
    "participantUserState (snd (shouldMute core runtime message state w)) = participantUserState w"
    "newCalls w (snd (shouldMute core runtime message state w)) =
       [UseModel TEXT_SMALL (shouldMutePrompt core state) [],
        LoggerWarn (''Unclear boolean response: '' @ response @ '', defaulting to false'')]"
    by (simp_all add: sm appended_def newCalls_def unclearWarning_def)
  have b: "filter (hasAction ''MUTE_ROOM_STARTED'')
             (appended w (snd (handler core runtime message (Some state) w))) = []"
    "filter (hasAction ''MUTE_ROOM_FAILED'')
             (appended w (snd (handler core runtime message (Some state) w))) = []"
    by (simp_all add: h ms appended_def)
  have c: "filter isSetParticipantUserState
             (newCalls w (snd (handler core runtime message (Some state) w))) = []"
    by (simp add: h evs newCalls_def)
  have d: "participantUserState (snd (handler core runtime message (Some state) w)) =
             participantUserState w"
    by (simp add: h closingRecords_participantUserState)
  from a b c d show ?thesis by (simp add: Let_def)
qed

theorem C6_unclear_reply_is_no_mute_witness:
  "useModel (replyingRuntime (Inr ''maybe?'') (Inr None)) TEXT_SMALL
     (shouldMutePrompt someCore stateWithRoom) [] = Inr ''maybe?'' \<and>
   \<not> affirmativeResponse (toLowerCase (trim ''maybe?'')) \<and>
   \<not> negativeResponse (toLowerCase (trim ''maybe?'')) \<and>
   (let w1 = snd (shouldMute someCore (replyingRuntime (Inr ''maybe?'') (Inr None))
                    userMessage stateWithRoom emptyWorld);
        w' = snd (handler someCore (replyingRuntime (Inr ''maybe?'') (Inr None))
                    userMessage (Some stateWithRoom) emptyWorld)
    in fst (shouldMute someCore (replyingRuntime (Inr ''maybe?'') (Inr None))
              userMessage stateWithRoom emptyWorld) = Inr False \<and>
       appended emptyWorld w1 = [] \<and>
       participantUserState w1 = participantUserState emptyWorld \<and>
       newCalls emptyWorld w1 =
         [UseModel TEXT_SMALL (shouldMutePrompt someCore stateWithRoom) [],
          LoggerWarn (''Unclear boolean response: '' @ ''maybe?'' @ '', defaulting to false'')] \<and>
       filter (hasAction ''MUTE_ROOM_STARTED'') (appended emptyWorld w') = [] \<and>
       filter (hasAction ''MUTE_ROOM_FAILED'') (appended emptyWorld w') = [] \<and>
       filter isSetParticipantUserState (newCalls emptyWorld w') = [] \<and>
       participantUserState w' = participantUserState emptyWorld)"
proof -
  let ?rt = "replyingRuntime (Inr ''maybe?'') (Inr None)"
  have reply: "useModel ?rt TEXT_SMALL (shouldMutePrompt someCore stateWithRoom) [] = Inr ''maybe?''"
    by (simp add: replyingRuntime_def)
  note naff = maybe_reply(1) and nneg = maybe_reply(2)
  from reply naff nneg
    C6_unclear_reply_is_no_mute [OF reply naff [unfolded affirmativeResponse_def]
      nneg [unfolded negativeResponse_def], where message = userMessage and w = emptyWorld]
  show ?thesis by blast
qed

text \<open>
  C7. Without a state snapshot the handler throws the error "State is required for muting
  a room". Its only call is the logging of that message: there is no completion call, no
  memory is appended and no participant state is written.
\<close>

theorem C7_state_is_required:
  "(let w' = snd (handler core runtime message None w)
    in fst (handler core runtime message None w) =
         Inl (Error ''State is required for muting a room'') \<and>
       newCalls w w' = [LoggerError ''State is required for muting a room''] \<and>
       filter isUseModel (newCalls w w') = [] \<and>
       memories w' = memories w \<and>
       participantUserState w' = participantUserState w)"
  by (simp add: handler_def stateRequired_def newCalls_def Let_def)

theorem C7_state_is_required_witness:
  "(let w' = snd (handler someCore (replyingRuntime (Inr ''YES'') (Inr None)) userMessage None emptyWorld)
    in fst (handler someCore (replyingRuntime (Inr ''YES'') (Inr None)) userMessage None emptyWorld) =
         Inl (Error ''State is required for muting a room'') \<and>
       newCalls emptyWorld w' = [LoggerError ''State is required for muting a room''] \<and>
       filter isUseModel (newCalls emptyWorld w') = [] \<and>
       memories w' = memories emptyWorld \<and>
       participantUserState w' = participantUserState emptyWorld)"
  by (rule C7_state_is_required)

text \<open>
  C8. When the completion call rejects with an error, the handler rejects with that same
  error; the completion call is the only call it has made, no memory has been appended and
  no participant state has been written.
\<close>

theorem C8_completion_failure_has_no_effect:
  assumes failure: "useModel runtime TEXT_SMALL (shouldMutePrompt core state) [] = Inl e"
  shows
    "(let w' = snd (handler core runtime message (Some state) w)
      in fst (handler core runtime message (Some state) w) = Inl e \<and>
         newCalls w w' = [UseModel TEXT_SMALL (shouldMutePrompt core state) []] \<and>
         memories w' = memories w \<and>
         participantUserState w' = participantUserState w)"
proof -
  have "handler core runtime message (Some state) w =
          (Inl e, call (UseModel TEXT_SMALL (shouldMutePrompt core state) []) w)"
    by (simp add: handler_Some shouldMute_reject [OF failure])
  then show ?thesis by (simp add: Let_def newCalls_def)
qed

theorem C8_completion_failure_has_no_effect_witness:
  "useModel (replyingRuntime (Inl (Error ''503 Service Unavailable'')) (Inr None)) TEXT_SMALL
     (shouldMutePrompt someCore stateWithRoom) [] = Inl (Error ''503 Service Unavailable'') \<and>
   (let w' = snd (handler someCore (replyingRuntime (Inl (Error ''503 Service Unavailable'')) (Inr None))
                    userMessage (Some stateWithRoom) emptyWorld)
    in fst (handler someCore (replyingRuntime (Inl (Error ''503 Service Unavailable'')) (Inr None))
              userMessage (Some stateWithRoom) emptyWorld) = Inl (Error ''503 Service Unavailable'') \<and>
       newCalls emptyWorld w' = [UseModel TEXT_SMALL (shouldMutePrompt someCore stateWithRoom) []] \<and>
       memories w' = memories emptyWorld \<and>
       participantUserState w' = participantUserState emptyWorld)"
proof -
  have failure: "useModel (replyingRuntime (Inl (Error ''503 Service Unavailable'')) (Inr None))
     TEXT_SMALL (shouldMutePrompt someCore stateWithRoom) [] = Inl (Error ''503 Service Unavailable'')"
    by (simp add: replyingRuntime_def)
  from failure
    C8_completion_failure_has_no_effect [OF failure, where message = userMessage and w = emptyWorld]
  show ?thesis by blast
qed

text \<open>
  C9. Once the completion service has replied: when the snapshot carries a room, the
  handler never calls getRoom and its closing records name that room; when it carries
  none, the handler calls getRoom(message.roomId) once and, if that resolves to a room,
  its closing records name the room returned. If getRoom rejects, the handler rejects
  with the same error, and if getRoom resolves to null it throws a TypeError; in both
  cases the invocation has appended neither a memory tagged MUTE\_ROOM\_START nor one
  tagged MUTE\_ROOM.
\<close>

theorem C9_room_from_snapshot_else_lookup:
  assumes reply: "useModel runtime TEXT_SMALL (shouldMutePrompt core state) [] = Inr response"
  shows
    "(let result = fst (handler core runtime message (Some state) w);
          w' = snd (handler core runtime message (Some state) w);
          closing = (\<lambda>room. [(muteRoomStartMemory message room, ''messages''),
                             (muteMessage core runtime message room, ''messages'')])
      in (data_room state = Some cached \<longrightarrow>
            filter isGetRoom (newCalls w w') = [] \<and>
            result = Inr () \<and>
            drop (length (appended w w') - 2) (appended w w') = closing cached) \<and>
         (data_room state = None \<and> getRoom runtime (roomId message) = Inr (Some fetched) \<longrightarrow>
            filter isGetRoom (newCalls w w') = [GetRoom (roomId message)] \<and>
            result = Inr () \<and>
            drop (length (appended w w') - 2) (appended w w') = closing fetched) \<and>
         (data_room state = None \<and> getRoom runtime (roomId message) = Inl e \<longrightarrow>
            filter isGetRoom (newCalls w w') = [GetRoom (roomId message)] \<and>
            result = Inl e \<and>
            filter (hasAction ''MUTE_ROOM_START'') (appended w w') = [] \<and>
            filter (hasAction ''MUTE_ROOM'') (appended w w') = []) \<and>
         (data_room state = None \<and> getRoom runtime (roomId message) = Inr None \<longrightarrow>
            filter isGetRoom (newCalls w w') = [GetRoom (roomId message)] \<and>
            result = Inl TypeError \<and>
            filter (hasAction ''MUTE_ROOM_START'') (appended w w') = [] \<and>
            filter (hasAction ''MUTE_ROOM'') (appended w w') = []))"
proof -
  let ?w' = "snd (handler core runtime message (Some state) w)"
  let ?closing = "\<lambda>room. [(muteRoomStartMemory message room, ''messages''),
                          (muteMessage core runtime message room, ''messages'')]"
  obtain w2 ms evs where h:
    "handler core runtime message (Some state) w = closingRecords core runtime message state w2"
    and w2: "memories w2 = memories w @ ms" "trace w2 = trace w @ evs"
    and old: "filter isGetRoom evs = []" "filter (hasAction ''MUTE_ROOM_START'') ms = []"
      "filter (hasAction ''MUTE_ROOM'') ms = []"
    using handler_reaches_closing [OF reply] by blast
  have a: "filter isGetRoom (newCalls w ?w') = [] \<and>
           fst (handler core runtime message (Some state) w) = Inr () \<and>
           drop (length (appended w ?w') - 2) (appended w ?w') = ?closing cached"
    if "data_room state = Some cached"
  proof -
    have "appended w ?w' = ms @ ?closing cached"
      by (simp add: h closingRecords_cached [OF that] w2 appended_def)
    then have "drop (length (appended w ?w') - 2) (appended w ?w') = ?closing cached"
      using drop_last_two [of ms] by simp
    then show ?thesis
      by (simp add: h closingRecords_cached [OF that] w2 old newCalls_def)
  qed
  have b: "filter isGetRoom (newCalls w ?w') = [GetRoom (roomId message)] \<and>
           fst (handler core runtime message (Some state) w) = Inr () \<and>
           drop (length (appended w ?w') - 2) (appended w ?w') = ?closing fetched"
    if "data_room state = None \<and> getRoom runtime (roomId message) = Inr (Some fetched)"
  proof -
    from that have c: "closingRecords core runtime message state w2 =
       (Inr (), createMemory (muteMessage core runtime message fetched) ''messages''
          (createMemory (muteRoomStartMemory message fetched) ''messages''
             (call (GetRoom (roomId message)) w2)))"
      by (simp add: closingRecords_fetched)
    have "appended w ?w' = ms @ ?closing fetched"
      by (simp add: h c w2 appended_def)
    then have "drop (length (appended w ?w') - 2) (appended w ?w') = ?closing fetched"
      using drop_last_two [of ms] by simp
    then show ?thesis
      by (simp add: h c w2 old newCalls_def)
  qed
  have c: "filter isGetRoom (newCalls w ?w') = [GetRoom (roomId message)] \<and>
           fst (handler core runtime message (Some state) w) = Inl e \<and>
           filter (hasAction ''MUTE_ROOM_START'') (appended w ?w') = [] \<and>
           filter (hasAction ''MUTE_ROOM'') (appended w ?w') = []"
    if "data_room state = None \<and> getRoom runtime (roomId message) = Inl e"
    using that by (simp add: h closingRecords_rejected w2 old newCalls_def appended_def)
  have d: "filter isGetRoom (newCalls w ?w') = [GetRoom (roomId message)] \<and>
           fst (handler core runtime message (Some state) w) = Inl TypeError \<and>
           filter (hasAction ''MUTE_ROOM_START'') (appended w ?w') = [] \<and>
           filter (hasAction ''MUTE_ROOM'') (appended w ?w') = []"
    if "data_room state = None \<and> getRoom runtime (roomId message) = Inr None"
    using that by (simp add: h closingRecords_null w2 old newCalls_def appended_def)
  from a b c d show ?thesis unfolding Let_def by blast
qed

theorem C9_room_from_snapshot_else_lookup_witness:
  "(let rt = replyingRuntime (Inr ''YES'') (Inl (Error ''Room not found''));
        w' = snd (handler someCore rt userMessage (Some stateWithRoom) emptyWorld)
    in useModel rt TEXT_SMALL (shouldMutePrompt someCore stateWithRoom) [] = Inr ''YES'' \<and>
       data_room stateWithRoom = Some generalRoom \<and>
       filter isGetRoom (newCalls emptyWorld w') = [] \<and>
       fst (handler someCore rt userMessage (Some stateWithRoom) emptyWorld) = Inr () \<and>
       drop (length (appended emptyWorld w') - 2) (appended emptyWorld w') =
         [(muteRoomStartMemory userMessage generalRoom, ''messages''),
          (muteMessage someCore rt userMessage generalRoom, ''messages'')]) \<and>
   (let rt = replyingRuntime (Inr ''YES'') (Inr (Some generalRoom));
        w' = snd (handler someCore rt userMessage (Some stateWithoutRoom) emptyWorld)
    in useModel rt TEXT_SMALL (shouldMutePrompt someCore stateWithoutRoom) [] = Inr ''YES'' \<and>
       data_room stateWithoutRoom = None \<and>
       getRoom rt (roomId userMessage) = Inr (Some generalRoom) \<and>
       filter isGetRoom (newCalls emptyWorld w') = [GetRoom (roomId userMessage)] \<and>
       fst (handler someCore rt userMessage (Some stateWithoutRoom) emptyWorld) = Inr () \<and>
       drop (length (appended emptyWorld w') - 2) (appended emptyWorld w') =
         [(muteRoomStartMemory userMessage generalRoom, ''messages''),
          (muteMessage someCore rt userMessage generalRoom, ''messages'')]) \<and>
   (let rt = replyingRuntime (Inr ''YES'') (Inl (Error ''Room not found''));
        w' = snd (handler someCore rt userMessage (Some stateWithoutRoom) emptyWorld)
    in useModel rt TEXT_SMALL (shouldMutePrompt someCore stateWithoutRoom) [] = Inr ''YES'' \<and>
       data_room stateWithoutRoom = None \<and>
       getRoom rt (roomId userMessage) = Inl (Error ''Room not found'') \<and>
       filter isGetRoom (newCalls emptyWorld w') = [GetRoom (roomId userMessage)] \<and>
       fst (handler someCore rt userMessage (Some stateWithoutRoom) emptyWorld) =
         Inl (Error ''Room not found'') \<and>
       filter (hasAction ''MUTE_ROOM_START'') (appended emptyWorld w') = [] \<and>
       filter (hasAction ''MUTE_ROOM'') (appended emptyWorld w') = []) \<and>
   (let rt = replyingRuntime (Inr ''YES'') (Inr None);
        w' = snd (handler someCore rt userMessage (Some stateWithoutRoom) emptyWorld)
    in useModel rt TEXT_SMALL (shouldMutePrompt someCore stateWithoutRoom) [] = Inr ''YES'' \<and>
       data_room stateWithoutRoom = None \<and>
       getRoom rt (roomId userMessage) = Inr None \<and>
       filter isGetRoom (newCalls emptyWorld w') = [GetRoom (roomId userMessage)] \<and>
       fst (handler someCore rt userMessage (Some stateWithoutRoom) emptyWorld) = Inl TypeError \<and>
       filter (hasAction ''MUTE_ROOM_START'') (appended emptyWorld w') = [] \<and>
       filter (hasAction ''MUTE_ROOM'') (appended emptyWorld w') = [])"
proof -
  let ?failing = "replyingRuntime (Inr ''YES'') (Inl (Error ''Room not found''))"
  let ?finding = "replyingRuntime (Inr ''YES'') (Inr (Some generalRoom))"
  let ?null = "replyingRuntime (Inr ''YES'') (Inr None)"
  have reply:
    "useModel ?failing TEXT_SMALL (shouldMutePrompt someCore stateWithRoom) [] = Inr ''YES''"
    "useModel ?finding TEXT_SMALL (shouldMutePrompt someCore stateWithoutRoom) [] = Inr ''YES''"
    "useModel ?failing TEXT_SMALL (shouldMutePrompt someCore stateWithoutRoom) [] = Inr ''YES''"
    "useModel ?null TEXT_SMALL (shouldMutePrompt someCore stateWithoutRoom) [] = Inr ''YES''"
    by (simp_all add: replyingRuntime_def)
  have room:
    "data_room stateWithRoom = Some generalRoom"
    "data_room stateWithoutRoom = None"
    "getRoom ?finding (roomId userMessage) = Inr (Some generalRoom)"
    "getRoom ?failing (roomId userMessage) = Inl (Error ''Room not found'')"
    "getRoom ?null (roomId userMessage) = Inr None"
    by (simp_all add: stateWithRoom_def stateWithoutRoom_def replyingRuntime_def)
  note cached = C9_room_from_snapshot_else_lookup [OF reply(1),
      where message = userMessage and w = emptyWorld and cached = generalRoom
        and fetched = generalRoom and e = "Error ''Room not found''", unfolded Let_def]
  note fetched = C9_room_from_snapshot_else_lookup [OF reply(2),
      where message = userMessage and w = emptyWorld and cached = generalRoom
        and fetched = generalRoom and e = "Error ''Room not found''", unfolded Let_def]
  note rejected = C9_room_from_snapshot_else_lookup [OF reply(3),
      where message = userMessage and w = emptyWorld and cached = generalRoom
        and fetched = generalRoom and e = "Error ''Room not found''", unfolded Let_def]
  note null = C9_room_from_snapshot_else_lookup [OF reply(4),
      where message = userMessage and w = emptyWorld and cached = generalRoom
        and fetched = generalRoom and e = "Error ''Room not found''", unfolded Let_def]
  have 1: "filter isGetRoom (newCalls emptyWorld
             (snd (handler someCore ?failing userMessage (Some stateWithRoom) emptyWorld))) = [] \<and>
       fst (handler someCore ?failing userMessage (Some stateWithRoom) emptyWorld) = Inr () \<and>
       drop (length (appended emptyWorld
               (snd (handler someCore ?failing userMessage (Some stateWithRoom) emptyWorld))) - 2)
         (appended emptyWorld
            (snd (handler someCore ?failing userMessage (Some stateWithRoom) emptyWorld))) =
         [(muteRoomStartMemory userMessage generalRoom, ''messages''),
          (muteMessage someCore ?failing userMessage generalRoom, ''messages'')]"
    using cached room(1) by blast
  have 2: "filter isGetRoom (newCalls emptyWorld
             (snd (handler someCore ?finding userMessage (Some stateWithoutRoom) emptyWorld))) =
         [GetRoom (roomId userMessage)] \<and>
       fst (handler someCore ?finding userMessage (Some stateWithoutRoom) emptyWorld) = Inr () \<and>
       drop (length (appended emptyWorld
               (snd (handler someCore ?finding userMessage (Some stateWithoutRoom) emptyWorld))) - 2)
         (appended emptyWorld
            (snd (handler someCore ?finding userMessage (Some stateWithoutRoom) emptyWorld))) =
         [(muteRoomStartMemory userMessage generalRoom, ''messages''),
          (muteMessage someCore ?finding userMessage generalRoom, ''messages'')]"
    using fetched room(2,3) by blast
  have 3: "filter isGetRoom (newCalls emptyWorld
             (snd (handler someCore ?failing userMessage (Some stateWithoutRoom) emptyWorld))) =
         [GetRoom (roomId userMessage)] \<and>
       fst (handler someCore ?failing userMessage (Some stateWithoutRoom) emptyWorld) =
         Inl (Error ''Room not found'') \<and>
       filter (hasAction ''MUTE_ROOM_START'') (appended emptyWorld
             (snd (handler someCore ?failing userMessage (Some stateWithoutRoom) emptyWorld))) = [] \<and>
       filter (hasAction ''MUTE_ROOM'') (appended emptyWorld
             (snd (handler someCore ?failing userMessage (Some stateWithoutRoom) emptyWorld))) = []"
    using rejected room(2,4) by blast
  have 4: "filter isGetRoom (newCalls emptyWorld
             (snd (handler someCore ?null userMessage (Some stateWithoutRoom) emptyWorld))) =
         [GetRoom (roomId userMessage)] \<and>
       fst (handler someCore ?null userMessage (Some stateWithoutRoom) emptyWorld) = Inl TypeError \<and>
       filter (hasAction ''MUTE_ROOM_START'') (appended emptyWorld
             (snd (handler someCore ?null userMessage (Some stateWithoutRoom) emptyWorld))) = [] \<and>
       filter (hasAction ''MUTE_ROOM'') (appended emptyWorld
             (snd (handler someCore ?null userMessage (Some stateWithoutRoom) emptyWorld))) = []"
    using null room(2,5) by blast
  from reply room 1 2 3 4 show ?thesis unfolding Let_def by blast
qed

text \<open>
  C10. For every reply that the affirmative rule does not match, the classifier returns
  false and its last call is the warning "Unclear boolean response: " followed by the
  reply and ", defaulting to false": after the append of the MUTE\_ROOM\_FAILED memory
  when the negative rule matches, directly after the completion call when it does not.
\<close>

theorem C10_negative_branch_falls_through:
  assumes reply: "useModel runtime TEXT_SMALL (shouldMutePrompt core state) [] = Inr response"
    and not_affirmative:
      "\<not> (toLowerCase (trim response) = ''true'' \<or>
          toLowerCase (trim response) = ''yes'' \<or>
          toLowerCase (trim response) = ''y'' \<or>
          includes_str (toLowerCase (trim response)) ''true'' \<or>
          includes_str (toLowerCase (trim response)) ''yes'')"
  shows
    "(let w1 = snd (shouldMute core runtime message state w);
          completion = UseModel TEXT_SMALL (shouldMutePrompt core state) [];
          warning = LoggerWarn (''Unclear boolean response: '' @ response @ '', defaulting to false'')
      in fst (shouldMute core runtime message state w) = Inr False \<and>
         last (newCalls w w1) = warning \<and>
         (negativeResponse (toLowerCase (trim response)) \<longrightarrow>
            newCalls w w1 =
              [completion, CreateMemory (muteRoomFailedMemory message) ''messages'', warning]) \<and>
         (\<not> negativeResponse (toLowerCase (trim response)) \<longrightarrow>
            newCalls w w1 = [completion, warning]))"
proof -
  from not_affirmative have naff: "\<not> affirmativeResponse (toLowerCase (trim response))"
    by (simp add: affirmativeResponse_def)
  show ?thesis
  proof (cases "negativeResponse (toLowerCase (trim response))")
    case True
    show ?thesis
      by (simp add: Let_def shouldMute_negative [OF reply naff True] True newCalls_def
          unclearWarning_def)
  next
    case False
    show ?thesis
      by (simp add: Let_def shouldMute_unclear [OF reply naff False] False newCalls_def
          unclearWarning_def)
  qed
qed

theorem C10_negative_branch_falls_through_witness:
  "(let rt = replyingRuntime (Inr ''no'') (Inr None);
        w1 = snd (shouldMute someCore rt userMessage stateWithRoom emptyWorld)
    in useModel rt TEXT_SMALL (shouldMutePrompt someCore stateWithRoom) [] = Inr ''no'' \<and>
       \<not> affirmativeResponse (toLowerCase (trim ''no'')) \<and>
       negativeResponse (toLowerCase (trim ''no'')) \<and>
       fst (shouldMute someCore rt userMessage stateWithRoom emptyWorld) = Inr False \<and>
       last (newCalls emptyWorld w1) =
         LoggerWarn (''Unclear boolean response: '' @ ''no'' @ '', defaulting to false'') \<and>
       newCalls emptyWorld w1 =
         [UseModel TEXT_SMALL (shouldMutePrompt someCore stateWithRoom) [],
          CreateMemory (muteRoomFailedMemory userMessage) ''messages'',
          LoggerWarn (''Unclear boolean response: '' @ ''no'' @ '', defaulting to false'')]) \<and>
   (let rt = replyingRuntime (Inr ''Hmm'') (Inr None);
        w1 = snd (shouldMute someCore rt userMessage stateWithRoom emptyWorld)
    in useModel rt TEXT_SMALL (shouldMutePrompt someCore stateWithRoom) [] = Inr ''Hmm'' \<and>
       \<not> affirmativeResponse (toLowerCase (trim ''Hmm'')) \<and>
       \<not> negativeResponse (toLowerCase (trim ''Hmm'')) \<and>
       fst (shouldMute someCore rt userMessage stateWithRoom emptyWorld) = Inr False \<and>
       last (newCalls emptyWorld w1) =
         LoggerWarn (''Unclear boolean response: '' @ ''Hmm'' @ '', defaulting to false'') \<and>
       newCalls emptyWorld w1 =
         [UseModel TEXT_SMALL (shouldMutePrompt someCore stateWithRoom) [],
          LoggerWarn (''Unclear boolean response: '' @ ''Hmm'' @ '', defaulting to false'')])"
proof -
  let ?no = "replyingRuntime (Inr ''no'') (Inr None)"
  let ?hmm = "replyingRuntime (Inr ''Hmm'') (Inr None)"
  have reply:
    "useModel ?no TEXT_SMALL (shouldMutePrompt someCore stateWithRoom) [] = Inr ''no''"
    "useModel ?hmm TEXT_SMALL (shouldMutePrompt someCore stateWithRoom) [] = Inr ''Hmm''"
    by (simp_all add: replyingRuntime_def)
  note no = C10_negative_branch_falls_through [OF reply(1)
      plain_no_reply(1) [unfolded affirmativeResponse_def],
      where message = userMessage and w = emptyWorld, unfolded Let_def]
  note hmm = C10_negative_branch_falls_through [OF reply(2)
      hmm_reply(1) [unfolded affirmativeResponse_def],
      where message = userMessage and w = emptyWorld, unfolded Let_def]
  from reply plain_no_reply hmm_reply no hmm show ?thesis unfolding Let_def by blast
qed

end
